theory Spec2Isabelle
  imports Main "HOL-Library.Char_ord"
begin

section \<open>Go values and the library calls of the gateway adapter\<close>

text \<open>
  The development embeds \<^verbatim>\<open>internal/gateway\<close> (the CLI adapter: \<^verbatim>\<open>GetFullStatus\<close>,
  \<^verbatim>\<open>FollowLogs\<close>, \<^verbatim>\<open>parseLogLine\<close>, \<^verbatim>\<open>runCommand\<close>, \<^verbatim>\<open>buildSSHArgs\<close>) and the log
  streaming part of \<^verbatim>\<open>internal/ui\<close> (\<^verbatim>\<open>startLogFollowing\<close>, \<^verbatim>\<open>stopLogFollowing\<close>,
  \<^verbatim>\<open>switchInstance\<close>).

  A Go \<^verbatim>\<open>string\<close> is a byte sequence: \<^typ>\<open>string\<close>. A Go \<^verbatim>\<open>int\<close> that is only compared
  and printed is an \<^typ>\<open>int\<close>. A \<^verbatim>\<open>time.Time\<close> is an opaque instant. A Go \<^verbatim>\<open>error\<close> is
  its message.
\<close>

type_synonym time = int
type_synonym error = string

subsection \<open>Records of package models\<close>

record LogEvent =
  Timestamp :: time
  Level :: string
  Source :: string
  Message :: string
  Raw :: string

text \<open>The anonymous struct \<^verbatim>\<open>jsonLog\<close> that \<^verbatim>\<open>parseLogLine\<close> decodes a line into.\<close>

record jsonLog =
  jsonLog_Time :: string
  jsonLog_Level :: string
  jsonLog_Msg :: string
  jsonLog_Message :: string

subsection \<open>What the standard library answers\<close>

text \<open>
  The calls whose answer depends on the clock, on the JSON decoder or on the Unicode
  tables are fields of a record that every function below receives:
  \<^item> \<^verbatim>\<open>time.Now()\<close>;
  \<^item> \<^verbatim>\<open>time.Parse(time.RFC3339, s)\<close>, \<open>None\<close> for a non-nil error;
  \<^item> \<^verbatim>\<open>json.Unmarshal([]byte(line), &jsonLog)\<close>, \<open>None\<close> for a non-nil error;
  \<^item> the three rune-wise paths that \<^verbatim>\<open>strings.ToLower\<close> and \<^verbatim>\<open>strings.TrimSpace\<close> take once
    they meet a byte \<open>\<ge> 0x80\<close>: \<^verbatim>\<open>Map(unicode.ToLower, s)\<close>,
    \<^verbatim>\<open>TrimFunc(s, unicode.IsSpace)\<close> and \<^verbatim>\<open>TrimRightFunc(s, unicode.IsSpace)\<close>.
\<close>

record stdlib =
  time_Now :: time
  time_Parse_RFC3339 :: "string \<Rightarrow> time option"
  json_Unmarshal_jsonLog :: "string \<Rightarrow> jsonLog option"
  strings_Map_unicode_ToLower :: "string \<Rightarrow> string"
  strings_TrimFunc_IsSpace :: "string \<Rightarrow> string"
  strings_TrimRightFunc_IsSpace :: "string \<Rightarrow> string"

subsection \<open>Package strings\<close>

definition isASCII :: "char \<Rightarrow> bool" where
  \<comment> \<open>\<^verbatim>\<open>c < utf8.RuneSelf\<close>\<close>
  "isASCII c = (of_char c < (128::nat))"

definition asciiSpace :: "char \<Rightarrow> bool" where
  \<comment> \<open>the table \<^verbatim>\<open>asciiSpace\<close>: tab, newline, vertical tab, form feed, return, space\<close>
  "asciiSpace c = (c \<in> set [CHR 0x09, CHR 0x0A, CHR 0x0B, CHR 0x0C, CHR 0x0D, CHR '' ''])"

definition lowerByte :: "char \<Rightarrow> char" where
  \<comment> \<open>\<^verbatim>\<open>if 'A' <= c && c <= 'Z' { c += 'a' - 'A' }\<close>\<close>
  "lowerByte c = (if CHR ''A'' \<le> c \<and> c \<le> CHR ''Z'' then char_of (of_char c + (32::nat)) else c)"

definition ToLower :: "'a stdlib_scheme \<Rightarrow> string \<Rightarrow> string" where
  \<comment> \<open>\<^verbatim>\<open>strings.ToLower\<close>: bytewise on an all-ASCII string, rune-wise otherwise\<close>
  "ToLower L s = (if list_all isASCII s then map lowerByte s else strings_Map_unicode_ToLower L s)"

text \<open>
  \<^verbatim>\<open>strings.TrimSpace\<close> makes two passes. The first walks from the front over ASCII space
  bytes; the second walks from the back. Either hands the rest over to the rune-wise
  trimming as soon as it meets a non-ASCII byte.
\<close>

function TrimSpace_stop :: "'a stdlib_scheme \<Rightarrow> string \<Rightarrow> string" where
  "TrimSpace_stop L s =
     (if s = [] then []
      else if \<not> isASCII (last s) then strings_TrimRightFunc_IsSpace L s
      else if asciiSpace (last s) then TrimSpace_stop L (butlast s)
      else s)"
  by pat_completeness auto
termination
  by (relation "measure (\<lambda>(L, s). length s)") auto

declare TrimSpace_stop.simps [simp del]

fun TrimSpace_start :: "'a stdlib_scheme \<Rightarrow> string \<Rightarrow> string" where
  "TrimSpace_start L [] = TrimSpace_stop L []"
| "TrimSpace_start L (c # s) =
     (if \<not> isASCII c then strings_TrimFunc_IsSpace L (c # s)
      else if asciiSpace c then TrimSpace_start L s
      else TrimSpace_stop L (c # s))"

definition TrimSpace :: "'a stdlib_scheme \<Rightarrow> string \<Rightarrow> string" where
  "TrimSpace L s = TrimSpace_start L s"

text \<open>\<^verbatim>\<open>strings.Index(s, substr)\<close>: the first position where \<open>substr\<close> starts, or \<open>-1\<close>.\<close>

fun Index :: "string \<Rightarrow> string \<Rightarrow> int" where
  "Index [] substr = (if substr = [] then 0 else -1)"
| "Index (c # s) substr =
     (if take (length substr) (c # s) = substr then 0
      else (let i = Index s substr in if i = -1 then -1 else i + 1))"

definition Contains :: "string \<Rightarrow> string \<Rightarrow> bool" where
  "Contains s substr = (Index s substr \<ge> 0)"

text \<open>
  Slice expressions \<^verbatim>\<open>s[lo:hi]\<close> and \<^verbatim>\<open>s[lo:]\<close>. Go panics when the bounds are out of
  range; the panic is the value \<open>None\<close>.
\<close>

definition slice :: "string \<Rightarrow> int \<Rightarrow> int \<Rightarrow> string option" where
  "slice s lo hi =
     (if 0 \<le> lo \<and> lo \<le> hi \<and> hi \<le> int (length s)
      then Some (take (nat (hi - lo)) (drop (nat lo) s)) else None)"

definition slice_from :: "string \<Rightarrow> int \<Rightarrow> string option" where
  "slice_from s lo = slice s lo (int (length s))"

section \<open>parseLogLine\<close>

text \<open>
  The branch taken when \<^verbatim>\<open>json.Unmarshal\<close> returned no error: the three \<^verbatim>\<open>if\<close>
  statements on \<^verbatim>\<open>jsonLog.Level\<close>, \<^verbatim>\<open>jsonLog.Msg\<close>/\<^verbatim>\<open>jsonLog.Message\<close> and \<^verbatim>\<open>jsonLog.Time\<close>.
\<close>

definition parseLogLine_json :: "'a stdlib_scheme \<Rightarrow> LogEvent \<Rightarrow> jsonLog \<Rightarrow> LogEvent" where
  "parseLogLine_json L event0 j =
     (let event1 = (if jsonLog_Level j \<noteq> [] then event0\<lparr>Level := ToLower L (jsonLog_Level j)\<rparr>
                    else event0);
          event2 = (if jsonLog_Msg j \<noteq> [] then event1\<lparr>Message := jsonLog_Msg j\<rparr>
                    else if jsonLog_Message j \<noteq> [] then event1\<lparr>Message := jsonLog_Message j\<rparr>
                    else event1)
      in if jsonLog_Time j \<noteq> [] then
           (case time_Parse_RFC3339 L (jsonLog_Time j) of
              Some t \<Rightarrow> event2\<lparr>Timestamp := t\<rparr>
            | None \<Rightarrow> event2)
         else event2)"

text \<open>The \<^verbatim>\<open>switch level\<close> of the bracketed branch; no case matching leaves the event as it is.\<close>

definition switch_level :: "string \<Rightarrow> LogEvent \<Rightarrow> LogEvent" where
  "switch_level level event =
     (if level = ''debug'' \<or> level = ''dbg'' then event\<lparr>Level := ''debug''\<rparr>
      else if level = ''info'' \<or> level = ''inf'' then event\<lparr>Level := ''info''\<rparr>
      else if level = ''warn'' \<or> level = ''warning'' \<or> level = ''wrn'' then event\<lparr>Level := ''warn''\<rparr>
      else if level = ''error'' \<or> level = ''err'' then event\<lparr>Level := ''error''\<rparr>
      else event)"

text \<open>
  The bracketed branch and the fallback, on the line already trimmed. \<open>None\<close> is a
  slice-bounds panic.
\<close>

definition parseLogLine_plain :: "'a stdlib_scheme \<Rightarrow> LogEvent \<Rightarrow> string \<Rightarrow> LogEvent option" where
  "parseLogLine_plain L event line =
     (let idx = Index line ''['' in
      if idx \<noteq> -1 then
        (case slice_from line idx of
           None \<Rightarrow> None
         | Some sub \<Rightarrow>
            (let endIdx = Index sub '']'' in
             if endIdx \<noteq> -1 then
               (case slice line (idx + 1) (idx + endIdx) of
                  None \<Rightarrow> None
                | Some tag \<Rightarrow>
                   (let level = ToLower L tag;
                        event1 = switch_level level event
                    in case slice_from line (idx + endIdx + 1) of
                         None \<Rightarrow> None
                       | Some rest \<Rightarrow> Some (event1\<lparr>Message := TrimSpace L rest\<rparr>)))
             else Some (event\<lparr>Message := line\<rparr>)))
      else Some (event\<lparr>Message := line\<rparr>))"

definition parseLogLine :: "'a stdlib_scheme \<Rightarrow> string \<Rightarrow> LogEvent option" where
  "parseLogLine L line =
     (let event = \<lparr>Timestamp = time_Now L, Level = ''info'', Source = [], Message = [], Raw = line\<rparr>
      in case json_Unmarshal_jsonLog L line of
           Some j \<Rightarrow> Some (parseLogLine_json L event j)
         | None \<Rightarrow> parseLogLine_plain L event (TrimSpace L line))"

section \<open>The CLI adapter\<close>

subsection \<open>fmt\<close>

text \<open>The verb \<^verbatim>\<open>%d\<close> of \<^verbatim>\<open>fmt.Sprintf\<close> on an \<^verbatim>\<open>int\<close>: decimal digits, a minus sign first.\<close>

definition digit :: "nat \<Rightarrow> char" where
  "digit d = ''0123456789'' ! d"

function digits :: "nat \<Rightarrow> string" where
  "digits n = (if n < 10 then [digit n] else digits (n div 10) @ [digit (n mod 10)])"
  by pat_completeness auto
termination
  by (relation "measure (\<lambda>n. n)") auto

declare digits.simps [simp del]

definition Sprintf_d :: "int \<Rightarrow> string" where
  "Sprintf_d i = (if i < 0 then CHR ''-'' # digits (nat (- i)) else digits (nat i))"

subsection \<open>Configuration and adapter state\<close>

record SSHConfig =
  Host :: string
  Port :: int
  User :: string
  IdentityFile :: string
  ProxyJump :: string
  ConnectTimeout :: int
  OpenClawCLI :: string

text \<open>
  A command handed to \<^verbatim>\<open>os/exec\<close>: the program and its arguments. A context is named by
  a number; so is a channel.
\<close>

type_synonym command = "string \<times> string list"
type_synonym ctx = nat
type_synonym chan = nat

text \<open>
  \<^verbatim>\<open>CLIAdapter\<close>. The decoded status payload \<^verbatim>\<open>models.OpenClawStatus\<close> is the type
  parameter. \<open>lastFetched = None\<close> is the zero \<^verbatim>\<open>time.Time\<close>; \<open>logCancel\<close> holds the
  context that the stored cancel function cancels. The mutex only serialises the
  accesses and has no field here.
\<close>

record 'st CLIAdapter =
  BinaryPath :: string
  SSHConfig :: "SSHConfig option"
  InstanceName :: string
  lastStatus :: "'st option"
  lastFetched :: "time option"
  lastError :: "error option"
  logCmd :: "command option"
  logCancel :: "ctx option"

definition NewCLIAdapter :: "'st CLIAdapter" where
  "NewCLIAdapter =
     \<lparr>BinaryPath = [], SSHConfig = None, InstanceName = ''local'', lastStatus = None,
      lastFetched = None, lastError = None, logCmd = None, logCancel = None\<rparr>"

definition NewSSHCLIAdapter :: "string \<Rightarrow> SSHConfig option \<Rightarrow> string \<Rightarrow> 'st CLIAdapter" where
  "NewSSHCLIAdapter name sshConfig openclawPath =
     \<lparr>BinaryPath = openclawPath, SSHConfig = sshConfig, InstanceName = name, lastStatus = None,
      lastFetched = None, lastError = None, logCmd = None, logCancel = None\<rparr>"

definition IsRemote :: "'st CLIAdapter \<Rightarrow> bool" where
  "IsRemote c = (case SSHConfig c of None \<Rightarrow> False | Some cfg \<Rightarrow> Host cfg \<noteq> [])"

definition getBinary :: "'st CLIAdapter \<Rightarrow> string" where
  "getBinary c = (if BinaryPath c \<noteq> [] then BinaryPath c else ''openclaw'')"

subsection \<open>What the operating system answers\<close>

text \<open>
  \<^verbatim>\<open>cmd.Output()\<close> returns the captured standard output, or an \<^verbatim>\<open>*exec.ExitError\<close> with
  the captured standard error and the exit code, or another error (the program was not
  found, could not be started). Launching the follow subprocess fails at
  \<^verbatim>\<open>StdoutPipe\<close>, at \<^verbatim>\<open>StderrPipe\<close> or at \<^verbatim>\<open>Start\<close>, or succeeds.
\<close>

datatype exec_result = Output string | ExitError string int | OtherError error

datatype launch_result = Started | StdoutPipeFailed error | StderrPipeFailed error | StartFailed error

record 'st world = stdlib +
  exec_Output :: "string \<Rightarrow> string list \<Rightarrow> exec_result"
  json_Unmarshal_status :: "string \<Rightarrow> error + 'st"
  cmd_Start :: "string \<Rightarrow> string list \<Rightarrow> launch_result"

subsection \<open>buildSSHArgs, runCommand\<close>

definition buildSSHArgs :: "'st CLIAdapter \<Rightarrow> string list" where
  "buildSSHArgs c =
     (case SSHConfig c of
        None \<Rightarrow> []
      | Some cfg \<Rightarrow>
         (let args = [];
              args = args @ [''-o'', ''BatchMode=yes''];
              args = args @ [''-o'', ''StrictHostKeyChecking=accept-new''];
              timeout = ConnectTimeout cfg;
              timeout = (if timeout \<le> 0 then 10 else timeout);
              args = args @ [''-o'', ''ConnectTimeout='' @ Sprintf_d timeout];
              args = (if Port cfg > 0 then args @ [''-p'', Sprintf_d (Port cfg)] else args);
              args = (if IdentityFile cfg \<noteq> [] then args @ [''-i'', IdentityFile cfg] else args);
              args = (if ProxyJump cfg \<noteq> [] then args @ [''-J'', ProxyJump cfg] else args);
              host = Host cfg;
              host = (if User cfg \<noteq> [] \<and> \<not> Contains host ''@'' then User cfg @ ''@'' @ host
                      else host)
          in args @ [host]))"

text \<open>\<^verbatim>\<open>strings.ReplaceAll(s, "'", "'\\''")\<close>: every quote becomes quote, backslash, quote, quote.\<close>

definition ReplaceAll_quote :: "string \<Rightarrow> string" where
  "ReplaceAll_quote s =
     concat (map (\<lambda>c. if c = CHR 0x27 then [CHR 0x27, CHR 0x5C, CHR 0x27, CHR 0x27] else [c]) s)"

definition shellQuote :: "string \<Rightarrow> string" where
  "shellQuote s = [CHR 0x27] @ ReplaceAll_quote s @ [CHR 0x27]"

text \<open>The loop of \<^verbatim>\<open>runSSHCommand\<close> that appends each argument to the remote command.\<close>

fun remoteCmd_args :: "string \<Rightarrow> string list \<Rightarrow> string" where
  "remoteCmd_args remoteCmd [] = remoteCmd"
| "remoteCmd_args remoteCmd (arg # args) =
     remoteCmd_args
       (if Contains arg '' '' \<or> Contains arg [CHR 0x27] \<or> Contains arg [CHR 0x22]
        then remoteCmd @ '' '' @ [CHR 0x27] @ ReplaceAll_quote arg @ [CHR 0x27]
        else remoteCmd @ '' '' @ arg)
       args"

text \<open>The command that \<^verbatim>\<open>runSSHCommand\<close> and \<^verbatim>\<open>runLocalCommand\<close> give to \<^verbatim>\<open>exec.Command\<close>.\<close>

definition sshCommand :: "'st CLIAdapter \<Rightarrow> string list \<Rightarrow> command" where
  "sshCommand c args =
     (let sshArgs = buildSSHArgs c;
          remoteCmd = remoteCmd_args (getBinary c) args;
          remoteCmd = ''bash -lc '' @ shellQuote remoteCmd;
          sshArgs = sshArgs @ [remoteCmd]
      in (''ssh'', sshArgs))"

definition localCommand :: "'st CLIAdapter \<Rightarrow> string list \<Rightarrow> command" where
  "localCommand c args = (getBinary c, args)"

definition runSSHCommand :: "('st, 'a) world_scheme \<Rightarrow> 'st CLIAdapter \<Rightarrow> string list \<Rightarrow> error + string" where
  "runSSHCommand W c args =
     (case exec_Output W (fst (sshCommand c args)) (snd (sshCommand c args)) of
        Output out \<Rightarrow> Inr (TrimSpace W out)
      | ExitError errb code \<Rightarrow>
          (let stderr = TrimSpace W errb
           in if stderr \<noteq> [] then Inl (''SSH command failed: '' @ stderr)
              else Inl (''SSH command failed with exit code '' @ Sprintf_d code))
      | OtherError err \<Rightarrow> Inl (''SSH connection failed: '' @ err))"

definition runLocalCommand :: "('st, 'a) world_scheme \<Rightarrow> 'st CLIAdapter \<Rightarrow> string list \<Rightarrow> error + string" where
  "runLocalCommand W c args =
     (case exec_Output W (fst (localCommand c args)) (snd (localCommand c args)) of
        Output out \<Rightarrow> Inr (TrimSpace W out)
      | ExitError errb code \<Rightarrow> Inl (''command failed: '' @ errb)
      | OtherError err \<Rightarrow> Inl err)"

definition runCommand :: "('st, 'a) world_scheme \<Rightarrow> 'st CLIAdapter \<Rightarrow> string list \<Rightarrow> error + string" where
  "runCommand W c args =
     (if IsRemote c then runSSHCommand W c args else runLocalCommand W c args)"

subsection \<open>GetFullStatus\<close>

text \<open>
  The result pair \<^verbatim>\<open>(*models.OpenClawStatus, error)\<close> comes with the adapter as the call
  leaves it.
\<close>

definition GetFullStatus ::
  "('st, 'a) world_scheme \<Rightarrow> 'st CLIAdapter \<Rightarrow> ('st option \<times> error option) \<times> 'st CLIAdapter" where
  "GetFullStatus W c =
     (case runCommand W c [''status'', ''--json''] of
        Inl err \<Rightarrow> ((None, Some err), c\<lparr>lastError := Some err\<rparr>)
      | Inr output \<Rightarrow>
         (case json_Unmarshal_status W output of
            Inl err \<Rightarrow>
              (let parseErr = ''failed to parse status JSON: '' @ err
               in ((None, Some parseErr), c\<lparr>lastError := Some parseErr\<rparr>))
          | Inr status \<Rightarrow>
              ((Some status, None),
               c\<lparr>lastStatus := Some status, lastFetched := Some (time_Now W), lastError := None\<rparr>)))"

definition GetCachedStatus :: "'st CLIAdapter \<Rightarrow> 'st option" where
  "GetCachedStatus c = lastStatus c"

definition GetLastError :: "'st CLIAdapter \<Rightarrow> error option" where
  "GetLastError c = lastError c"

section \<open>Log following\<close>

subsection \<open>Contexts, channels and subprocesses\<close>

text \<open>
  The part of the Go runtime and of the operating system that log following touches:
  the contexts made by \<^verbatim>\<open>context.WithCancel\<close> (each with its parent, \<open>None\<close> for
  \<^verbatim>\<open>context.Background()\<close>), which of them are done, the channels made, and the
  subprocesses started by \<^verbatim>\<open>exec.CommandContext\<close>. A subprocess records the adapter
  that started it, its command, its context and the channel its two reader goroutines
  send to. \<^verbatim>\<open>os/exec\<close> kills a subprocess once its context is done.
\<close>

record proc =
  proc_owner :: string
  proc_cmd :: command
  proc_ctx :: ctx
  proc_chan :: chan

record runtime =
  next_id :: nat
  ctx_parent :: "(ctx \<times> ctx option) list"
  ctx_done :: "ctx set"
  procs :: "proc list"

definition runtime0 :: runtime where
  "runtime0 = \<lparr>next_id = 0, ctx_parent = [], ctx_done = {}, procs = []\<rparr>"

definition make_chan :: "runtime \<Rightarrow> chan \<times> runtime" where
  "make_chan rt = (next_id rt, rt\<lparr>next_id := next_id rt + 1\<rparr>)"

text \<open>A context derived from a parent that is done is done from the start.\<close>

definition WithCancel :: "runtime \<Rightarrow> ctx option \<Rightarrow> ctx \<times> runtime" where
  "WithCancel rt parent =
     (let k = next_id rt
      in (k, rt\<lparr>next_id := k + 1,
                ctx_parent := ctx_parent rt @ [(k, parent)],
                ctx_done := (case parent of
                               None \<Rightarrow> ctx_done rt
                             | Some p \<Rightarrow> if p \<in> ctx_done rt then insert k (ctx_done rt)
                                         else ctx_done rt)\<rparr>))"

text \<open>
  Cancelling a context cancels the contexts derived from it. A child is created after
  its parent, so one pass over the contexts in creation order reaches every descendant.
\<close>

fun propagate :: "(ctx \<times> ctx option) list \<Rightarrow> ctx set \<Rightarrow> ctx set" where
  "propagate [] D = D"
| "propagate ((k, p) # cs) D =
     propagate cs (case p of None \<Rightarrow> D | Some q \<Rightarrow> if q \<in> D then insert k D else D)"

definition cancel :: "runtime \<Rightarrow> ctx \<Rightarrow> runtime" where
  "cancel rt k = rt\<lparr>ctx_done := propagate (ctx_parent rt) (insert k (ctx_done rt))\<rparr>"

definition running :: "runtime \<Rightarrow> proc \<Rightarrow> bool" where
  "running rt p = (proc_ctx p \<notin> ctx_done rt)"

text \<open>
  The follow sessions of an instance that are active: the \<^verbatim>\<open>logs --follow\<close> subprocesses
  started by its adapter whose context is not done.
\<close>

definition active_sessions :: "runtime \<Rightarrow> string \<Rightarrow> proc list" where
  "active_sessions rt name = filter (\<lambda>p. proc_owner p = name \<and> running rt p) (procs rt)"

subsection \<open>FollowLogs, StopFollowingLogs\<close>

text \<open>
  \<^verbatim>\<open>FollowLogs\<close> up to its \<^verbatim>\<open>return\<close>: it derives a context, stores the cancel function and
  the command in the adapter, and starts the command. The three goroutines it leaves
  behind (two readers, one \<^verbatim>\<open>cmd.Wait\<close>) belong to the subprocess entry.
\<close>

definition FollowLogs_command :: "'st CLIAdapter \<Rightarrow> command" where
  "FollowLogs_command c = (let binary = getBinary c in (binary, [''logs'', ''--follow'']))"

definition FollowLogs ::
  "('st, 'a) world_scheme \<Rightarrow> runtime \<Rightarrow> 'st CLIAdapter \<Rightarrow> ctx \<Rightarrow> chan \<Rightarrow>
     error option \<times> 'st CLIAdapter \<times> runtime" where
  "FollowLogs W rt c ctx0 logChan' =
     (let (ctx1, rt) = WithCancel rt (Some ctx0);
          c = c\<lparr>logCancel := Some ctx1\<rparr>;
          cmd = FollowLogs_command c;
          c = c\<lparr>logCmd := Some cmd\<rparr>
      in case cmd_Start W (fst cmd) (snd cmd) of
           StdoutPipeFailed err \<Rightarrow> (Some (''failed to get stdout pipe: '' @ err), c, rt)
         | StderrPipeFailed err \<Rightarrow> (Some (''failed to get stderr pipe: '' @ err), c, rt)
         | StartFailed err \<Rightarrow> (Some (''failed to start logs command: '' @ err), c, rt)
         | Started \<Rightarrow>
             (None, c,
              rt\<lparr>procs := procs rt @
                   [\<lparr>proc_owner = InstanceName c, proc_cmd = cmd, proc_ctx = ctx1,
                     proc_chan = logChan'\<rparr>]\<rparr>))"

definition StopFollowingLogs :: "runtime \<Rightarrow> 'st CLIAdapter \<Rightarrow> runtime" where
  "StopFollowingLogs rt c = (case logCancel c of Some k \<Rightarrow> cancel rt k | None \<Rightarrow> rt)"

section \<open>The application model: starting, stopping, switching\<close>

text \<open>
  The fields of \<^verbatim>\<open>App\<close> that the log streaming code reads or writes. The adapters are
  addressed by their position in \<open>cliAdapters\<close>. \<open>LogTailLines\<close> stands for
  \<^verbatim>\<open>a.config.UI.LogTailLines\<close>. The field \<^verbatim>\<open>a.logCancel\<close> is \<open>app_logCancel\<close>, the adapter
  having a field of the same name.
\<close>

datatype FocusedPane = PaneInstances | PaneDetails

record ('st, 'h) App =
  focusedPane :: FocusedPane
  cliAdapters :: "'st CLIAdapter list"
  selectedInstance :: int
  openclawStatus :: "'st option"
  healthCheckResult :: "'h option"
  logs :: "LogEvent list"
  logChan :: "chan option"
  logCtx :: "ctx option"
  app_logCancel :: "ctx option"
  logFollowing :: bool

datatype 'st Msg = CLIStatusMsg "'st option" "error option" | CLILogMsg LogEvent

datatype Cmd = Cmd_fetchCLIStatus | Cmd_fetchCLIHealth | Cmd_startLogFollowing | Cmd_waitForCLILog

text \<open>
  What running the function behind a command gives: the message it returns (\<open>None\<close> for
  \<^verbatim>\<open>nil\<close>), or the \<^verbatim>\<open>select\<close> on the log channel and the context where it waits.
\<close>

datatype 'st outcome = Returned "'st Msg option" | Waits_in_select

definition getCurrentAdapter :: "('st, 'h) App \<Rightarrow> nat option" where
  "getCurrentAdapter a =
     (if length (cliAdapters a) = 0 then None
      else if selectedInstance a < 0 \<or> selectedInstance a \<ge> int (length (cliAdapters a)) then Some 0
      else Some (nat (selectedInstance a)))"

definition fetchCLIStatus_run ::
  "('st, 'a) world_scheme \<Rightarrow> ('st, 'h) App \<Rightarrow> ('st, 'h) App \<times> 'st Msg" where
  "fetchCLIStatus_run W a =
     (case getCurrentAdapter a of
        None \<Rightarrow> (a, CLIStatusMsg None (Some ''CLI adapter not initialized''))
      | Some i \<Rightarrow>
         (let ((status, err), c) = GetFullStatus W (cliAdapters a ! i)
          in (a\<lparr>cliAdapters := (cliAdapters a)[i := c]\<rparr>, CLIStatusMsg status err)))"

text \<open>
  The function that \<^verbatim>\<open>startLogFollowing\<close> returns, run until it returns a message or
  reaches its \<^verbatim>\<open>select\<close>.
\<close>

definition startLogFollowing_run ::
  "('st, 'a) world_scheme \<Rightarrow> ('st, 'h) App \<times> runtime \<Rightarrow> (('st, 'h) App \<times> runtime) \<times> 'st outcome" where
  "startLogFollowing_run W s =
     (let (a, rt) = s
      in case getCurrentAdapter a of
           None \<Rightarrow> ((a, rt), Returned None)
         | Some i \<Rightarrow>
            (let (ch, rt) = make_chan rt;
                 a = a\<lparr>logChan := Some ch\<rparr>;
                 (k, rt) = WithCancel rt None;
                 a = a\<lparr>logCtx := Some k, app_logCancel := Some k\<rparr>;
                 (err, c, rt) = FollowLogs W rt (cliAdapters a ! i) k ch;
                 a = a\<lparr>cliAdapters := (cliAdapters a)[i := c]\<rparr>
             in case err of
                  Some e \<Rightarrow>
                    ((a, rt),
                     Returned (Some (CLILogMsg
                       \<lparr>Timestamp = time_Now W, Level = ''warn'', Source = ''lazyclaw'',
                        Message = ''Could not start log following: '' @ e, Raw = []\<rparr>)))
                | None \<Rightarrow> ((a\<lparr>logFollowing := True\<rparr>, rt), Waits_in_select)))"

text \<open>
  \<^verbatim>\<open>stopLogFollowing\<close>. The goroutine it starts only receives from \<^verbatim>\<open>a.logChan\<close> and
  changes no field.
\<close>

definition stopLogFollowing :: "('st, 'h) App \<times> runtime \<Rightarrow> ('st, 'h) App \<times> runtime" where
  "stopLogFollowing s =
     (let (a, rt) = s;
          rt = (case app_logCancel a of Some k \<Rightarrow> cancel rt k | None \<Rightarrow> rt);
          a = a\<lparr>logFollowing := False\<rparr>
      in (a, rt))"

definition switchInstance ::
  "('st, 'h) App \<times> runtime \<Rightarrow> Cmd list \<Rightarrow> (('st, 'h) App \<times> runtime) \<times> Cmd list" where
  "switchInstance s cmds =
     (let (a, rt) = s;
          a = a\<lparr>openclawStatus := None\<rparr>;
          a = a\<lparr>healthCheckResult := None\<rparr>;
          a = a\<lparr>logs := []\<rparr>;
          (a, rt) = stopLogFollowing (a, rt);
          cmds = cmds @ [Cmd_fetchCLIStatus];
          cmds = cmds @ [Cmd_fetchCLIHealth];
          cmds = cmds @ [Cmd_startLogFollowing]
      in ((a, rt), cmds))"

text \<open>
  The case of \<^verbatim>\<open>Update\<close> for the key that moves the selection down, in normal mode: it
  selects the next instance and switches, when the instance pane is focused and there
  is a next instance.
\<close>

definition Update_Down ::
  "('st, 'h) App \<times> runtime \<Rightarrow> Cmd list \<Rightarrow> (('st, 'h) App \<times> runtime) \<times> Cmd list" where
  "Update_Down s cmds =
     (let (a, rt) = s
      in if focusedPane a = PaneInstances \<and> length (cliAdapters a) > 1 then
           (if selectedInstance a < int (length (cliAdapters a)) - 1 then
              (let a = a\<lparr>selectedInstance := selectedInstance a + 1\<rparr>
               in switchInstance (a, rt) cmds)
            else ((a, rt), cmds))
         else ((a, rt), cmds))"

section \<open>Example inputs\<close>

text \<open>
  One concrete world for the evaluations below. Its clock reads \<open>1705314700\<close>. Its JSON
  decoder answers on four log lines what \<^verbatim>\<open>encoding/json\<close> answers on them and rejects
  every other line; its RFC 3339 parser knows one timestamp. Every example is ASCII, so
  the rune-wise string functions are never reached. The program \<^verbatim>\<open>openclaw\<close> prints a
  status document, \<^verbatim>\<open>openclaw-down\<close> exits with status 1, \<^verbatim>\<open>openclaw-garbled\<close> prints half
  a document, and any other program is not found. The decoded status is just the
  reachability flag.
\<close>

definition example_Unmarshal :: "string \<Rightarrow> jsonLog option" where
  "example_Unmarshal line =
     (if line = ''{\"level\":\"wrn\",\"msg\":\"disk low\"}'' then
        Some \<lparr>jsonLog_Time = [], jsonLog_Level = ''wrn'', jsonLog_Msg = ''disk low'', jsonLog_Message = []\<rparr>
      else if line = ''{\"level\":\"WARNING\",\"msg\":\"disk low\"}'' then
        Some \<lparr>jsonLog_Time = [], jsonLog_Level = ''WARNING'', jsonLog_Msg = ''disk low'', jsonLog_Message = []\<rparr>
      else if line = ''{\"time\":\"2024-01-15T10:30:45Z\",\"level\":\"ERROR\",\"msg\":\"boom\"}'' then
        Some \<lparr>jsonLog_Time = ''2024-01-15T10:30:45Z'', jsonLog_Level = ''ERROR'', jsonLog_Msg = ''boom'',
              jsonLog_Message = []\<rparr>
      else if line = ''{\"time\":\"2024-01-15T10:30:45Z\",\"level\":\"ERROR\",\"message\":\"boom\"}'' then
        Some \<lparr>jsonLog_Time = ''2024-01-15T10:30:45Z'', jsonLog_Level = ''ERROR'', jsonLog_Msg = [],
              jsonLog_Message = ''boom''\<rparr>
      else None)"

definition example_exec :: "string \<Rightarrow> string list \<Rightarrow> exec_result" where
  "example_exec prog args =
     (if prog = ''openclaw'' then Output ''{\"gateway\":{\"reachable\":true}}''
      else if prog = ''openclaw-down'' then ExitError ''gateway not running'' 1
      else if prog = ''openclaw-garbled'' then Output ''{\"gateway\":''
      else OtherError ''executable file not found in $PATH'')"

definition example_world :: "bool world" where
  "example_world =
     \<lparr>time_Now = 1705314700,
      time_Parse_RFC3339 = (\<lambda>s. if s = ''2024-01-15T10:30:45Z'' then Some 1705314645 else None),
      json_Unmarshal_jsonLog = example_Unmarshal,
      strings_Map_unicode_ToLower = (\<lambda>s. s),
      strings_TrimFunc_IsSpace = (\<lambda>s. s),
      strings_TrimRightFunc_IsSpace = (\<lambda>s. s),
      exec_Output = example_exec,
      json_Unmarshal_status =
        (\<lambda>s. if s = ''{\"gateway\":{\"reachable\":true}}'' then Inr True
             else Inl ''unexpected end of JSON input''),
      cmd_Start =
        (\<lambda>prog args. if prog = ''openclaw'' then Started
                     else if prog = ''openclaw-down'' then Started
                     else if prog = ''openclaw-garbled'' then Started
                     else StartFailed ''executable file not found in $PATH'')\<rparr>"

text \<open>Three local adapters, the last two with a snapshot cached by an earlier fetch.\<close>

definition adapter_up :: "bool CLIAdapter" where
  "adapter_up = NewCLIAdapter"

definition adapter_down :: "bool CLIAdapter" where
  "adapter_down = NewCLIAdapter\<lparr>BinaryPath := ''openclaw-down'', lastStatus := Some True,
                                lastFetched := Some 1705314000\<rparr>"

definition adapter_garbled :: "bool CLIAdapter" where
  "adapter_garbled = NewCLIAdapter\<lparr>BinaryPath := ''openclaw-garbled'', lastStatus := Some True,
                                   lastFetched := Some 1705314000\<rparr>"

text \<open>A remote instance, as \<^verbatim>\<open>initCLIAdapters\<close> builds it from an instance in SSH mode.\<close>

definition example_ssh :: SSHConfig where
  "example_ssh =
     \<lparr>Host = ''gw.example.com'', Port = 2222, User = ''ops'', IdentityFile = ''/home/me/.ssh/id_ed25519'',
      ProxyJump = ''bastion'', ConnectTimeout = 0, OpenClawCLI = []\<rparr>"

definition adapter_remote :: "bool CLIAdapter" where
  "adapter_remote = NewSSHCLIAdapter ''prod'' (Some example_ssh) []"

text \<open>A second remote instance with no port, identity file or jump host, and a timeout.\<close>

definition example_ssh_plain :: SSHConfig where
  "example_ssh_plain =
     \<lparr>Host = ''ops@10.0.0.7'', Port = 0, User = ''root'', IdentityFile = [], ProxyJump = [],
      ConnectTimeout = 30, OpenClawCLI = []\<rparr>"

definition adapter_remote_plain :: "bool CLIAdapter" where
  "adapter_remote_plain =
     NewSSHCLIAdapter ''staging'' (Some example_ssh_plain) ''/opt/openclaw/bin/openclaw''"

text \<open>A local instance whose configured binary does not exist.\<close>

definition adapter_missing :: "bool CLIAdapter" where
  "adapter_missing = NewCLIAdapter\<lparr>BinaryPath := ''/opt/missing/openclaw'', lastStatus := Some True,
                                   lastFetched := Some 1705314000\<rparr>"

text \<open>An application with the one local adapter, nothing fetched or followed yet.\<close>

definition app0 :: "(bool, unit) App" where
  "app0 =
     \<lparr>focusedPane = PaneInstances, cliAdapters = [adapter_up], selectedInstance = 0,
      openclawStatus = None,
      healthCheckResult = None, logs = [], logChan = None, logCtx = None, app_logCancel = None,
      logFollowing = False\<rparr>"

definition app_remote :: "(bool, unit) App" where
  "app_remote = app0\<lparr>cliAdapters := [adapter_remote]\<rparr>"

text \<open>Three instances \<^verbatim>\<open>alpha\<close>, \<^verbatim>\<open>beta\<close>, \<^verbatim>\<open>gamma\<close>, the first one selected.\<close>

definition app_three :: "(bool, unit) App" where
  "app_three =
     app0\<lparr>cliAdapters := [adapter_up\<lparr>InstanceName := ''alpha''\<rparr>,
                              adapter_up\<lparr>InstanceName := ''beta''\<rparr>,
                              adapter_up\<lparr>InstanceName := ''gamma''\<rparr>]\<rparr>"

definition app_missing :: "(bool, unit) App" where
  "app_missing = app0\<lparr>cliAdapters := [adapter_missing], openclawStatus := Some True\<rparr>"

section \<open>Facts about the string functions\<close>

text \<open>
  On a byte written out bit by bit, adding 32 to an upper-case letter is setting bit 5;
  in this form the simplifier lower-cases a literal string.
\<close>

lemma lowerByte_Char:
  "lowerByte (Char b0 b1 b2 b3 b4 b5 b6 b7) =
     (if CHR ''A'' \<le> Char b0 b1 b2 b3 b4 b5 b6 b7 \<and> Char b0 b1 b2 b3 b4 b5 b6 b7 \<le> CHR ''Z''
      then Char b0 b1 b2 b3 b4 True b6 b7 else Char b0 b1 b2 b3 b4 b5 b6 b7)"
  unfolding lowerByte_def
  by (cases b0; cases b1; cases b2; cases b3; cases b4; cases b5; cases b6; cases b7;
      simp add: less_eq_char_def char_of_def bit_simps)

lemma Index_byte_ge: "Index s [b] \<ge> -1"
  by (induction s) (auto simp: Let_def)

lemma Index_byte_none: "Index s [b] = -1 \<longleftrightarrow> b \<notin> set s"
proof (induction s)
  case Nil
  show ?case by simp
next
  case (Cons c s)
  have "Index s [b] \<ge> -1" by (rule Index_byte_ge)
  with Cons show ?case by (auto simp: Let_def)
qed

lemma Index_byte_first:
  "b \<notin> set pre \<Longrightarrow> Index (pre @ b # rest) [b] = int (length pre)"
  by (induction pre) (auto simp: Let_def)

lemma slice_from_append: "slice_from (xs @ ys) (int (length xs)) = Some ys"
  by (simp add: slice_from_def slice_def)

lemma slice_mid:
  "slice (xs @ c # ys @ zs) (int (length xs) + 1) (int (length xs) + (1 + int (length ys))) = Some ys"
  by (simp add: slice_def nat_add_distrib)

text \<open>
  A string whose first and last bytes are ASCII and not space is left alone by
  \<^verbatim>\<open>TrimSpace\<close>: both passes stop at once.
\<close>

lemma TrimSpace_stop_keep:
  "s \<noteq> [] \<Longrightarrow> isASCII (last s) \<Longrightarrow> \<not> asciiSpace (last s) \<Longrightarrow> TrimSpace_stop L s = s"
  by (subst TrimSpace_stop.simps) simp

lemma TrimSpace_keep:
  "s \<noteq> [] \<Longrightarrow> isASCII (hd s) \<Longrightarrow> \<not> asciiSpace (hd s) \<Longrightarrow> isASCII (last s) \<Longrightarrow>
   \<not> asciiSpace (last s) \<Longrightarrow> TrimSpace L s = s"
  by (cases s) (simp_all add: TrimSpace_def TrimSpace_stop_keep)

lemma replicate_ends:
  "0 < n \<Longrightarrow> replicate n c \<noteq> [] \<and> hd (replicate n c) = c \<and> last (replicate n c) = c"
  by (cases n) simp_all

text \<open>Unfolding sets for evaluating the functions on literal inputs.\<close>

lemmas string_eval = TrimSpace_def TrimSpace_stop.simps isASCII_def asciiSpace_def ToLower_def
  lowerByte_Char slice_def slice_from_def Contains_def digits.simps digit_def Sprintf_d_def
  ReplaceAll_quote_def shellQuote_def

lemmas parse_eval = parseLogLine_def parseLogLine_plain_def parseLogLine_json_def switch_level_def
  Let_def

lemmas example_eval = example_world_def example_Unmarshal_def example_exec_def adapter_up_def
  adapter_down_def adapter_garbled_def adapter_remote_def example_ssh_def app0_def
  NewCLIAdapter_def NewSSHCLIAdapter_def runtime0_def example_ssh_plain_def adapter_remote_plain_def
  adapter_missing_def app_remote_def app_missing_def app_three_def

lemmas adapter_eval = IsRemote_def getBinary_def buildSSHArgs_def sshCommand_def localCommand_def
  FollowLogs_command_def runCommand_def runLocalCommand_def runSSHCommand_def

lemmas app_eval = startLogFollowing_run_def stopLogFollowing_def switchInstance_def
  getCurrentAdapter_def make_chan_def WithCancel_def cancel_def FollowLogs_def
  active_sessions_def running_def fetchCLIStatus_run_def GetFullStatus_def

section \<open>Properties of parseLogLine\<close>

subsection \<open>The two plain-text branches\<close>

text \<open>
  When the trimmed line has a \<open>[\<close> and a \<open>]\<close> after the first \<open>[\<close>, the text between
  them is the tag and the text after the \<open>]\<close> is the message; no slice panics.
\<close>

lemma parseLogLine_plain_bracket:
  assumes "line = pre @ CHR ''['' # tag @ CHR '']'' # rest"
      and "CHR ''['' \<notin> set pre" and "CHR '']'' \<notin> set tag"
  shows "parseLogLine_plain L event line =
           Some ((switch_level (ToLower L tag) event)\<lparr>Message := TrimSpace L rest\<rparr>)"
proof -
  have idx: "Index line ''['' = int (length pre)"
    using assms(1,2) by (simp add: Index_byte_first)
  have sub: "slice_from line (int (length pre)) = Some (CHR ''['' # tag @ CHR '']'' # rest)"
    unfolding assms(1) by (rule slice_from_append)
  have "Index (tag @ CHR '']'' # rest) '']'' = int (length tag)"
    using assms(3) by (simp add: Index_byte_first)
  then have endIdx: "Index (CHR ''['' # tag @ CHR '']'' # rest) '']'' = 1 + int (length tag)"
    by (simp add: Let_def)
  have tag: "slice line (int (length pre) + 1) (int (length pre) + (1 + int (length tag))) = Some tag"
    unfolding assms(1) using slice_mid [of pre "CHR ''[''" tag "CHR '']'' # rest"] by simp
  have "line = (pre @ CHR ''['' # tag @ [CHR '']'']) @ rest"
    by (simp add: assms(1))
  then have "slice_from line (int (length (pre @ CHR ''['' # tag @ [CHR '']'']))) = Some rest"
    using slice_from_append by metis
  then have rest: "slice_from line (2 + (int (length pre) + int (length tag))) = Some rest"
    by (simp add: add.commute add.left_commute)
  show ?thesis
    unfolding parseLogLine_plain_def
    by (simp add: idx sub endIdx tag rest Let_def del: Index.simps)
qed

lemma bracket_first:
  assumes "line = pre @ CHR ''['' # tag @ CHR '']'' # rest"
  shows "\<exists>pre' tag' rest'. line = pre' @ CHR ''['' # tag' @ CHR '']'' # rest' \<and>
           CHR ''['' \<notin> set pre' \<and> CHR '']'' \<notin> set tag'"
proof -
  have "CHR ''['' \<in> set line" using assms by simp
  then obtain p r where pr: "line = p @ CHR ''['' # r" "CHR ''['' \<notin> set p"
    by (meson split_list_first)
  have "CHR '']'' \<in> set r"
  proof -
    from pr(1) assms have "p @ CHR ''['' # r = pre @ CHR ''['' # tag @ CHR '']'' # rest"
      by simp
    with pr(2) show ?thesis
      by (auto simp: append_eq_append_conv2 Cons_eq_append_conv append_eq_Cons_conv)
  qed
  then obtain t r' where "r = t @ CHR '']'' # r'" "CHR '']'' \<notin> set t"
    by (meson split_list_first)
  with pr show ?thesis by blast
qed


lemma parseLogLine_plain_fallback:
  assumes "\<nexists>pre tag rest. line = pre @ CHR ''['' # tag @ CHR '']'' # rest"
  shows "parseLogLine_plain L event line = Some (event\<lparr>Message := line\<rparr>)"
proof (cases "CHR ''['' \<in> set line")
  case False
  then have "Index line ''['' = -1" by (simp add: Index_byte_none)
  then show ?thesis by (simp add: parseLogLine_plain_def)
next
  case True
  then obtain p r where pr: "line = p @ CHR ''['' # r" "CHR ''['' \<notin> set p"
    by (meson split_list_first)
  have idx: "Index line ''['' = int (length p)"
    using pr by (simp add: Index_byte_first)
  have sub: "slice_from line (int (length p)) = Some (CHR ''['' # r)"
    unfolding pr(1) by (rule slice_from_append)
  have "CHR '']'' \<notin> set r"
  proof
    assume "CHR '']'' \<in> set r"
    then obtain t r' where "r = t @ CHR '']'' # r'" by (meson split_list)
    with pr(1) assms show False by blast
  qed
  then have "Index (CHR ''['' # r) '']'' = -1"
    by (simp add: Index_byte_none)
  then show ?thesis
    unfolding parseLogLine_plain_def
    by (simp add: idx sub Let_def del: Index.simps)
qed

lemma Raw_switch_level: "Raw (switch_level level event) = Raw event"
  by (simp add: switch_level_def)

lemma Timestamp_switch_level: "Timestamp (switch_level level event) = Timestamp event"
  by (simp add: switch_level_def)

lemma parseLogLine_plain_cases:
  "(\<exists>pre tag rest. line = pre @ CHR ''['' # tag @ CHR '']'' # rest \<and> CHR ''['' \<notin> set pre \<and>
       CHR '']'' \<notin> set tag \<and>
       parseLogLine_plain L event line =
         Some ((switch_level (ToLower L tag) event)\<lparr>Message := TrimSpace L rest\<rparr>))
   \<or> parseLogLine_plain L event line = Some (event\<lparr>Message := line\<rparr>)"
proof (cases "\<exists>pre tag rest. line = pre @ CHR ''['' # tag @ CHR '']'' # rest")
  case True
  then obtain pre tag rest where "line = pre @ CHR ''['' # tag @ CHR '']'' # rest"
      "CHR ''['' \<notin> set pre" "CHR '']'' \<notin> set tag"
    using bracket_first by blast
  then show ?thesis using parseLogLine_plain_bracket by blast
next
  case False
  then show ?thesis using parseLogLine_plain_fallback by blast
qed

lemma parseLogLine_plain_total:
  "\<exists>e. parseLogLine_plain L event line = Some e \<and> Raw e = Raw event \<and> Timestamp e = Timestamp event"
  using parseLogLine_plain_cases [of line L event]
  by (auto simp: Raw_switch_level Timestamp_switch_level)

lemma Raw_parseLogLine_json: "Raw (parseLogLine_json L event j) = Raw event"
  by (simp add: parseLogLine_json_def Let_def split: option.splits)



subsection \<open>The JSON branch\<close>

text \<open>
  What the JSON branch puts into the event: the level text lower-cased and nothing more,
  the message under \<^verbatim>\<open>msg\<close> or else under \<^verbatim>\<open>message\<close>, the timestamp when it parses.
\<close>

lemma parseLogLine_json_fields:
  assumes "json_Unmarshal_jsonLog L line = Some j"
  shows "\<exists>e. parseLogLine L line = Some e \<and>
           Level e = (if jsonLog_Level j \<noteq> [] then ToLower L (jsonLog_Level j) else ''info'') \<and>
           Timestamp e = (if jsonLog_Time j \<noteq> [] then
                            (case time_Parse_RFC3339 L (jsonLog_Time j) of Some t \<Rightarrow> t | None \<Rightarrow> time_Now L)
                          else time_Now L) \<and>
           Message e = (if jsonLog_Msg j \<noteq> [] then jsonLog_Msg j else jsonLog_Message j)"
  using assms by (simp add: parseLogLine_def parseLogLine_json_def Let_def split: option.splits)

lemma no_bracket_token:
  "CHR ''['' \<notin> set s \<Longrightarrow> \<nexists>pre tag rest. s = pre @ ''['' @ tag @ '']'' @ rest"
  by auto

lemma example_Unmarshal_brace:
  "line \<noteq> [] \<Longrightarrow> hd line \<noteq> CHR ''{'' \<Longrightarrow> example_Unmarshal line = None"
  by (cases line) (simp_all add: example_Unmarshal_def)


subsection \<open>Claim C5\<close>

text \<open>
  C5 says that a JSON line carrying a level field gets its level mapped to one of
  debug, info, warn, error, the abbreviations dbg/inf/wrn/err and the synonym
  \<^verbatim>\<open>warning\<close> included, so that level \<^verbatim>\<open>WARNING\<close> or \<^verbatim>\<open>wrn\<close> yields \<^verbatim>\<open>warn\<close>.
  The JSON branch of \<^verbatim>\<open>parseLogLine\<close> only lower-cases the level text; the \<^verbatim>\<open>switch\<close> that
  maps abbreviations and the synonym sits in the bracketed branch alone. Evaluated on
  the two lines of the claim, the code yields level \<^verbatim>\<open>wrn\<close> and level \<^verbatim>\<open>warning\<close>.
\<close>

theorem parseLogLine_json_level_evaluation:
  "parseLogLine example_world ''{\"level\":\"wrn\",\"msg\":\"disk low\"}'' =
     Some \<lparr>Timestamp = 1705314700, Level = ''wrn'', Source = [], Message = ''disk low'',
           Raw = ''{\"level\":\"wrn\",\"msg\":\"disk low\"}''\<rparr> \<and>
   parseLogLine example_world ''{\"level\":\"WARNING\",\"msg\":\"disk low\"}'' =
     Some \<lparr>Timestamp = 1705314700, Level = ''warning'', Source = [], Message = ''disk low'',
           Raw = ''{\"level\":\"WARNING\",\"msg\":\"disk low\"}''\<rparr>"
  by (simp add: parse_eval example_eval string_eval)

subsection \<open>Claim C8\<close>

text \<open>
  C8: for every level text, message text and timestamp text, a JSON line that carries
  the message under the key \<^verbatim>\<open>msg\<close> and the otherwise identical line that carries it
  under the key \<^verbatim>\<open>message\<close> parse to events with the same level, the same message and
  the same timestamp. The two lines are given by what the decoder makes of them: the
  same \<^verbatim>\<open>time\<close> and \<^verbatim>\<open>level\<close>, the message in \<^verbatim>\<open>Msg\<close> for one and in \<^verbatim>\<open>Message\<close> for the
  other. Both parses read the same clock, which matters only when the timestamp text
  does not parse and the receipt time stands in.
\<close>

theorem parseLogLine_message_key:
  assumes "json_Unmarshal_jsonLog L line1 =
             Some \<lparr>jsonLog_Time = t, jsonLog_Level = lv, jsonLog_Msg = m, jsonLog_Message = []\<rparr>"
      and "json_Unmarshal_jsonLog L line2 =
             Some \<lparr>jsonLog_Time = t, jsonLog_Level = lv, jsonLog_Msg = [], jsonLog_Message = m\<rparr>"
  shows "\<exists>e1 e2. parseLogLine L line1 = Some e1 \<and> parseLogLine L line2 = Some e2 \<and>
           Level e1 = Level e2 \<and> Message e1 = Message e2 \<and> Timestamp e1 = Timestamp e2 \<and>
           Message e1 = m"
  using assms by (simp add: parseLogLine_def parseLogLine_json_def Let_def split: option.splits)

text \<open>The theorem at two lines of the example world, with level \<^verbatim>\<open>ERROR\<close> and message \<^verbatim>\<open>boom\<close>.\<close>

theorem parseLogLine_message_key_witness:
  "\<exists>e1 e2.
     parseLogLine example_world ''{\"time\":\"2024-01-15T10:30:45Z\",\"level\":\"ERROR\",\"msg\":\"boom\"}'' = Some e1 \<and>
     parseLogLine example_world ''{\"time\":\"2024-01-15T10:30:45Z\",\"level\":\"ERROR\",\"message\":\"boom\"}'' = Some e2 \<and>
     Level e1 = Level e2 \<and> Message e1 = Message e2 \<and> Timestamp e1 = Timestamp e2 \<and> Message e1 = ''boom''"
  by (rule parseLogLine_message_key [where t = "''2024-01-15T10:30:45Z''" and lv = "''ERROR''"])
     (simp_all add: example_eval)

subsection \<open>Claim C7\<close>

text \<open>
  C7: for every line that is not valid JSON and whose first \<open>[...]\<close> token is a level
  tag, the abbreviations dbg/inf/wrn/err included and in any letter case, the event
  has that level, and its message is everything after the closing bracket, trimmed of
  whitespace. In particular \<^verbatim>\<open>[WARN] disk low\<close> yields level \<^verbatim>\<open>warn\<close> and message
  \<^verbatim>\<open>disk low\<close>, whatever the clock and the Unicode tables. The first token is given by
  splitting the trimmed line at its first \<open>[\<close> and at the first \<open>]\<close> after it.
\<close>

theorem parseLogLine_bracket_tag:
  "(json_Unmarshal_jsonLog L line = None \<and> TrimSpace L line = pre @ ''['' @ tag @ '']'' @ rest \<and>
    CHR ''['' \<notin> set pre \<and> CHR '']'' \<notin> set tag \<longrightarrow>
      (\<exists>e. parseLogLine L line = Some e \<and> Message e = TrimSpace L rest \<and>
            (ToLower L tag \<in> {''debug'', ''dbg''} \<longrightarrow> Level e = ''debug'') \<and>
            (ToLower L tag \<in> {''info'', ''inf''} \<longrightarrow> Level e = ''info'') \<and>
            (ToLower L tag \<in> {''warn'', ''warning'', ''wrn''} \<longrightarrow> Level e = ''warn'') \<and>
            (ToLower L tag \<in> {''error'', ''err''} \<longrightarrow> Level e = ''error''))) \<and>
   (json_Unmarshal_jsonLog L ''[WARN] disk low'' = None \<longrightarrow>
      (\<exists>e. parseLogLine L ''[WARN] disk low'' = Some e \<and> Level e = ''warn'' \<and> Message e = ''disk low''))"
proof (intro conjI impI)
  assume a: "json_Unmarshal_jsonLog L line = None \<and> TrimSpace L line = pre @ ''['' @ tag @ '']'' @ rest \<and>
    CHR ''['' \<notin> set pre \<and> CHR '']'' \<notin> set tag"
  let ?event = "\<lparr>Timestamp = time_Now L, Level = ''info'', Source = [], Message = [], Raw = line\<rparr>"
  from a have a1: "TrimSpace L line = pre @ CHR ''['' # tag @ CHR '']'' # rest"
    and a2: "CHR ''['' \<notin> set pre" and a3: "CHR '']'' \<notin> set tag"
    by simp_all
  have "parseLogLine_plain L ?event (TrimSpace L line) =
      Some ((switch_level (ToLower L tag) ?event)\<lparr>Message := TrimSpace L rest\<rparr>)"
    using a1 a2 a3 by (rule parseLogLine_plain_bracket)
  with a have "parseLogLine L line = Some ((switch_level (ToLower L tag) ?event)\<lparr>Message := TrimSpace L rest\<rparr>)"
    by (simp add: parseLogLine_def)
  then show "\<exists>e. parseLogLine L line = Some e \<and> Message e = TrimSpace L rest \<and>
            (ToLower L tag \<in> {''debug'', ''dbg''} \<longrightarrow> Level e = ''debug'') \<and>
            (ToLower L tag \<in> {''info'', ''inf''} \<longrightarrow> Level e = ''info'') \<and>
            (ToLower L tag \<in> {''warn'', ''warning'', ''wrn''} \<longrightarrow> Level e = ''warn'') \<and>
            (ToLower L tag \<in> {''error'', ''err''} \<longrightarrow> Level e = ''error'')"
    by (auto simp: switch_level_def)
next
  assume "json_Unmarshal_jsonLog L ''[WARN] disk low'' = None"
  then show "\<exists>e. parseLogLine L ''[WARN] disk low'' = Some e \<and> Level e = ''warn'' \<and> Message e = ''disk low''"
    by (simp add: parse_eval string_eval)
qed

text \<open>The theorem at a line with a timestamp before the tag and blanks around the message.\<close>

theorem parseLogLine_bracket_tag_witness:
  "\<exists>e. parseLogLine example_world ''  2024-01-15 10:30:45 [Wrn]   disk low  '' = Some e \<and>
        Message e = ''disk low'' \<and> Level e = ''warn''"
proof -
  define line where "line = ''  2024-01-15 10:30:45 [Wrn]   disk low  ''"
  define pre where "pre = ''2024-01-15 10:30:45 ''"
  define tag where "tag = ''Wrn''"
  define rest where "rest = ''   disk low''"
  have t: "TrimSpace example_world line = pre @ ''['' @ tag @ '']'' @ rest"
    by (simp add: line_def pre_def tag_def rest_def string_eval)
  have j: "json_Unmarshal_jsonLog example_world line = None"
    by (simp add: line_def example_eval)
  have b: "CHR ''['' \<notin> set pre" "CHR '']'' \<notin> set tag"
    by (simp_all add: pre_def tag_def)
  have l: "ToLower example_world tag \<in> {''warn'', ''warning'', ''wrn''}"
    by (simp add: tag_def string_eval)
  have m: "TrimSpace example_world rest = ''disk low''"
    by (simp add: rest_def string_eval)
  from parseLogLine_bracket_tag [of example_world line pre tag rest] t j b
  obtain e where "parseLogLine example_world line = Some e"
      "Message e = TrimSpace example_world rest"
      "ToLower example_world tag \<in> {''warn'', ''warning'', ''wrn''} \<longrightarrow> Level e = ''warn''"
    by blast
  with l m have "\<exists>e. parseLogLine example_world line = Some e \<and> Message e = ''disk low'' \<and> Level e = ''warn''"
    by auto
  then show ?thesis by (simp only: line_def)
qed

subsection \<open>Claim C6\<close>

text \<open>
  C6 says that a line matching neither convention gets the whole line as its message.
  The code trims the line before it looks for a bracket, and the fallback assigns the
  trimmed line: a line with two leading blanks loses them in the message.
\<close>

theorem parseLogLine_whole_line_counterexample:
  "json_Unmarshal_jsonLog example_world ''  disk low'' = None \<and>
   CHR ''['' \<notin> set ''  disk low'' \<and>
   parseLogLine example_world ''  disk low'' =
     Some \<lparr>Timestamp = 1705314700, Level = ''info'', Source = [], Message = ''disk low'',
           Raw = ''  disk low''\<rparr> \<and>
   ''disk low'' \<noteq> ''  disk low''"
  by (simp add: parse_eval example_eval string_eval)

text \<open>
  C6 as amended: \<^verbatim>\<open>parseLogLine\<close> returns an event for every line (no slice goes out of
  range) and the event keeps the original line verbatim in \<^verbatim>\<open>Raw\<close>. For every line that
  is not valid JSON and whose trimmed form has no \<open>[...]\<close> token, the level is \<^verbatim>\<open>info\<close>,
  the timestamp is the receipt time, and the message is the line trimmed of leading and
  trailing whitespace; it is the whole line when the line begins and ends with an ASCII
  byte that is not whitespace.
\<close>

theorem parseLogLine_total_fallback:
  "\<exists>e. parseLogLine L line = Some e \<and> Raw e = line \<and>
     (json_Unmarshal_jsonLog L line = None \<and>
      (\<nexists>pre tag rest. TrimSpace L line = pre @ ''['' @ tag @ '']'' @ rest) \<longrightarrow>
        Level e = ''info'' \<and> Message e = TrimSpace L line \<and> Timestamp e = time_Now L \<and>
        (line \<noteq> [] \<and> isASCII (hd line) \<and> \<not> asciiSpace (hd line) \<and>
         isASCII (last line) \<and> \<not> asciiSpace (last line) \<longrightarrow> Message e = line))"
proof (cases "json_Unmarshal_jsonLog L line")
  case (Some j)
  then show ?thesis by (simp add: parseLogLine_def Raw_parseLogLine_json)
next
  case None
  let ?event = "\<lparr>Timestamp = time_Now L, Level = ''info'', Source = [], Message = [], Raw = line\<rparr>"
  obtain e where e: "parseLogLine_plain L ?event (TrimSpace L line) = Some e" "Raw e = line"
    using parseLogLine_plain_total [of L ?event "TrimSpace L line"] by auto
  have p: "parseLogLine L line = Some e" using None e by (simp add: parseLogLine_def)
  have "Level e = ''info'' \<and> Message e = TrimSpace L line \<and> Timestamp e = time_Now L"
    if "\<nexists>pre tag rest. TrimSpace L line = pre @ ''['' @ tag @ '']'' @ rest"
  proof -
    from that have "\<nexists>pre tag rest. TrimSpace L line = pre @ CHR ''['' # tag @ CHR '']'' # rest"
      by simp
    from parseLogLine_plain_fallback [OF this, of L ?event] e show ?thesis by auto
  qed
  moreover have "TrimSpace L line = line"
    if "line \<noteq> [] \<and> isASCII (hd line) \<and> \<not> asciiSpace (hd line) \<and>
         isASCII (last line) \<and> \<not> asciiSpace (last line)"
    using that by (simp add: TrimSpace_keep)
  ultimately show ?thesis using p e(2) by auto
qed

text \<open>The theorem at a line of 600 bytes \<^verbatim>\<open>x\<close>: no brackets, not JSON, nothing to trim.\<close>

theorem parseLogLine_total_fallback_witness:
  "\<exists>e. parseLogLine example_world (replicate 600 CHR ''x'') = Some e \<and>
        Raw e = replicate 600 CHR ''x'' \<and> Level e = ''info'' \<and>
        Message e = replicate 600 CHR ''x'' \<and> Timestamp e = 1705314700"
proof -
  define line where "line = replicate 600 CHR ''x''"
  have "line \<noteq> [] \<and> hd line = CHR ''x'' \<and> last line = CHR ''x''"
    unfolding line_def by (rule replicate_ends) simp
  then have ends: "line \<noteq> [] \<and> isASCII (hd line) \<and> \<not> asciiSpace (hd line) \<and>
         isASCII (last line) \<and> \<not> asciiSpace (last line)"
    by (simp add: isASCII_def asciiSpace_def)
  then have t: "TrimSpace example_world line = line"
    by (simp add: TrimSpace_keep)
  have j: "json_Unmarshal_jsonLog example_world line = None"
    using \<open>line \<noteq> [] \<and> hd line = CHR ''x'' \<and> last line = CHR ''x''\<close>
    by (simp add: example_world_def example_Unmarshal_brace)
  have "CHR ''['' \<notin> set line" by (simp add: line_def)
  then have b: "\<nexists>pre tag rest. TrimSpace example_world line = pre @ ''['' @ tag @ '']'' @ rest"
    unfolding t by (rule no_bracket_token)
  have n: "time_Now example_world = 1705314700" by (simp add: example_world_def)
  from parseLogLine_total_fallback [of example_world line]
  obtain e where e: "parseLogLine example_world line = Some e" "Raw e = line"
    and imp: "json_Unmarshal_jsonLog example_world line = None \<and>
      (\<nexists>pre tag rest. TrimSpace example_world line = pre @ ''['' @ tag @ '']'' @ rest) \<longrightarrow>
        Level e = ''info'' \<and> Message e = TrimSpace example_world line \<and>
        Timestamp e = time_Now example_world \<and>
        (line \<noteq> [] \<and> isASCII (hd line) \<and> \<not> asciiSpace (hd line) \<and>
         isASCII (last line) \<and> \<not> asciiSpace (last line) \<longrightarrow> Message e = line)"
    by blast
  from imp j b ends have "Level e = ''info'' \<and> Message e = line \<and> Timestamp e = time_Now example_world"
    by blast
  with e n have "\<exists>e. parseLogLine example_world line = Some e \<and> Raw e = line \<and> Level e = ''info'' \<and>
        Message e = line \<and> Timestamp e = 1705314700"
    by auto
  then show ?thesis by (simp only: line_def)
qed


section \<open>Properties of the adapter\<close>

subsection \<open>Claim C1\<close>

text \<open>
  C1: for every call of \<^verbatim>\<open>GetFullStatus\<close>, if the command ran and its output decoded,
  the call returns the decoded payload, the cached snapshot becomes that payload and
  the cached error is cleared; if the command failed, or its output did not decode, the
  call returns an error and no payload, that error becomes the cached error, and the
  cached snapshot (and the time it was fetched) stay as they were.
\<close>

theorem GetFullStatus_cache:
  "(runCommand W c [''status'', ''--json''] = Inr out \<and> json_Unmarshal_status W out = Inr st \<longrightarrow>
      fst (GetFullStatus W c) = (Some st, None) \<and>
      GetCachedStatus (snd (GetFullStatus W c)) = Some st \<and>
      GetLastError (snd (GetFullStatus W c)) = None) \<and>
   (runCommand W c [''status'', ''--json''] = Inl err \<or>
    (runCommand W c [''status'', ''--json''] = Inr out \<and> json_Unmarshal_status W out = Inl err) \<longrightarrow>
      (\<exists>e. fst (GetFullStatus W c) = (None, Some e) \<and>
           GetLastError (snd (GetFullStatus W c)) = Some e) \<and>
      GetCachedStatus (snd (GetFullStatus W c)) = GetCachedStatus c \<and>
      lastFetched (snd (GetFullStatus W c)) = lastFetched c)"
  by (auto simp: GetFullStatus_def GetCachedStatus_def GetLastError_def Let_def)

text \<open>
  The theorem at three adapters of the example world: one whose command succeeds, one
  whose command exits with status 1 and one whose output is half a document, the last
  two holding an earlier snapshot.
\<close>

lemma run_up: "runCommand example_world adapter_up [''status'', ''--json''] = Inr ''{\"gateway\":{\"reachable\":true}}''"
  by (simp add: runCommand_def runLocalCommand_def localCommand_def IsRemote_def getBinary_def
      example_eval string_eval)

lemma run_down: "runCommand example_world adapter_down [''status'', ''--json''] = Inl ''command failed: gateway not running''"
  by (simp add: runCommand_def runLocalCommand_def localCommand_def IsRemote_def getBinary_def
      example_eval string_eval)

lemma run_garbled: "runCommand example_world adapter_garbled [''status'', ''--json''] = Inr ''{\"gateway\":''"
  by (simp add: runCommand_def runLocalCommand_def localCommand_def IsRemote_def getBinary_def
      example_eval string_eval)

theorem GetFullStatus_cache_witness:
  "fst (GetFullStatus example_world adapter_up) = (Some True, None) \<and>
   GetCachedStatus (snd (GetFullStatus example_world adapter_up)) = Some True \<and>
   GetLastError (snd (GetFullStatus example_world adapter_up)) = None \<and>
   GetCachedStatus adapter_down = Some True \<and>
   (\<exists>e. fst (GetFullStatus example_world adapter_down) = (None, Some e) \<and>
        GetLastError (snd (GetFullStatus example_world adapter_down)) = Some e) \<and>
   GetCachedStatus (snd (GetFullStatus example_world adapter_down)) = Some True \<and>
   (\<exists>e. fst (GetFullStatus example_world adapter_garbled) = (None, Some e) \<and>
        GetLastError (snd (GetFullStatus example_world adapter_garbled)) = Some e) \<and>
   GetCachedStatus (snd (GetFullStatus example_world adapter_garbled)) = Some True"
proof -
  have d1: "json_Unmarshal_status example_world ''{\"gateway\":{\"reachable\":true}}'' = Inr True"
    by (simp add: example_world_def)
  have d2: "json_Unmarshal_status example_world ''{\"gateway\":'' = Inl ''unexpected end of JSON input''"
    by (simp add: example_world_def)
  have c1: "GetCachedStatus adapter_down = Some True" "GetCachedStatus adapter_garbled = Some True"
    by (simp_all add: GetCachedStatus_def example_eval)
  note up = GetFullStatus_cache [where W = example_world and c = adapter_up and st = True, THEN conjunct1, rule_format, OF conjI, OF run_up d1]
  note down = GetFullStatus_cache [where W = example_world and c = adapter_down, THEN conjunct2, rule_format, OF disjI1, OF run_down]
  note garbled = GetFullStatus_cache [where W = example_world and c = adapter_garbled, THEN conjunct2, rule_format, OF disjI2, OF conjI, OF run_garbled d2]
  from up down garbled c1 show ?thesis by simp
qed

subsection \<open>Claim C9\<close>

text \<open>
  C9: for every remote adapter, \<^verbatim>\<open>runCommand\<close> takes the SSH path, and the program is
  \<^verbatim>\<open>ssh\<close> with an argument list that starts with \<^verbatim>\<open>-o BatchMode=yes\<close>,
  \<^verbatim>\<open>-o StrictHostKeyChecking=accept-new\<close> and \<^verbatim>\<open>-o ConnectTimeout=\<close>\<open>t\<close>, where \<open>t\<close> is
  the configured timeout, or 10 when that is zero or negative; then come \<^verbatim>\<open>-p\<close> and the
  port exactly when the port is positive, \<^verbatim>\<open>-i\<close> and the identity file exactly when one
  is given, \<^verbatim>\<open>-J\<close> and the jump host exactly when one is given; the host and the remote
  command end the list. A port is set when it is positive: the zero value of the field
  is the unset one.
\<close>

theorem sshCommand_connection_policy:
  assumes "IsRemote c" and "SSHConfig c = Some cfg"
  shows "runCommand W c args = runSSHCommand W c args \<and>
         (\<exists>host remoteCmd.
            sshCommand c args =
              (''ssh'',
               [''-o'', ''BatchMode=yes'', ''-o'', ''StrictHostKeyChecking=accept-new'',
                ''-o'', ''ConnectTimeout='' @ (if ConnectTimeout cfg \<le> 0 then ''10''
                                              else Sprintf_d (ConnectTimeout cfg))] @
               (if 0 < Port cfg then [''-p'', Sprintf_d (Port cfg)] else []) @
               (if IdentityFile cfg \<noteq> [] then [''-i'', IdentityFile cfg] else []) @
               (if ProxyJump cfg \<noteq> [] then [''-J'', ProxyJump cfg] else []) @
               [host, remoteCmd]))"
proof -
  have ten: "Sprintf_d 10 = ''10''"
    by (simp add: Sprintf_d_def digits.simps digit_def)
  show ?thesis
    using assms by (simp add: runCommand_def sshCommand_def buildSSHArgs_def Let_def ten)
qed

text \<open>
  The theorem at a configuration with every option and no timeout, and at one with a
  timeout and no option.
\<close>

theorem sshCommand_connection_policy_witness:
  "IsRemote adapter_remote \<and> IsRemote adapter_remote_plain \<and>
   (\<exists>host remoteCmd.
      sshCommand adapter_remote [''status'', ''--json''] =
        (''ssh'',
         [''-o'', ''BatchMode=yes'', ''-o'', ''StrictHostKeyChecking=accept-new'',
          ''-o'', ''ConnectTimeout=10'', ''-p'', ''2222'', ''-i'', ''/home/me/.ssh/id_ed25519'',
          ''-J'', ''bastion'', host, remoteCmd])) \<and>
   (\<exists>host remoteCmd.
      sshCommand adapter_remote_plain [''status'', ''--json''] =
        (''ssh'',
         [''-o'', ''BatchMode=yes'', ''-o'', ''StrictHostKeyChecking=accept-new'',
          ''-o'', ''ConnectTimeout=30'', host, remoteCmd]))"
proof -
  have r: "IsRemote adapter_remote" "SSHConfig adapter_remote = Some example_ssh"
    by (simp_all add: IsRemote_def example_eval)
  have p: "IsRemote adapter_remote_plain" "SSHConfig adapter_remote_plain = Some example_ssh_plain"
    by (simp_all add: IsRemote_def adapter_remote_plain_def example_ssh_plain_def NewSSHCLIAdapter_def)
  have s: "Sprintf_d 2222 = ''2222''" "Sprintf_d 30 = ''30''"
    by (simp_all add: Sprintf_d_def digits.simps digit_def)
  from sshCommand_connection_policy [OF r, of example_world "[''status'', ''--json'']"]
       sshCommand_connection_policy [OF p, of example_world "[''status'', ''--json'']"] r(1) p(1) s
  show ?thesis
    by (simp add: example_ssh_def example_ssh_plain_def)
qed

subsection \<open>Claim C2\<close>

text \<open>
  C2 says that on a remote instance \<^verbatim>\<open>FollowLogs\<close> runs \<^verbatim>\<open>logs --follow\<close> through the
  same SSH wrapper as the one-shot fetches. \<^verbatim>\<open>FollowLogs\<close> never consults \<^verbatim>\<open>IsRemote\<close>: it
  hands \<^verbatim>\<open>getBinary()\<close> with \<^verbatim>\<open>logs --follow\<close> to \<^verbatim>\<open>exec.CommandContext\<close>. Evaluated on
  the remote adapter of the example, \<^verbatim>\<open>runCommand\<close> would run \<^verbatim>\<open>ssh\<close> with the connection
  options, while the subprocess that following starts is the local \<^verbatim>\<open>openclaw\<close>.
\<close>

theorem FollowLogs_remote_evaluation:
  "IsRemote adapter_remote \<and>
   sshCommand adapter_remote [''logs'', ''--follow''] =
     (''ssh'',
      [''-o'', ''BatchMode=yes'', ''-o'', ''StrictHostKeyChecking=accept-new'',
       ''-o'', ''ConnectTimeout=10'', ''-p'', ''2222'', ''-i'', ''/home/me/.ssh/id_ed25519'',
       ''-J'', ''bastion'', ''ops@gw.example.com'',
       ''bash -lc '' @ [CHR 0x27] @ ''openclaw logs --follow'' @ [CHR 0x27]]) \<and>
   FollowLogs_command adapter_remote = (''openclaw'', [''logs'', ''--follow'']) \<and>
   procs (snd (fst (startLogFollowing_run example_world (app_remote, runtime0)))) =
     [\<lparr>proc_owner = ''prod'', proc_cmd = (''openclaw'', [''logs'', ''--follow'']),
       proc_ctx = 2, proc_chan = 0\<rparr>]"
  by (simp add: adapter_eval example_eval string_eval app_remote_def startLogFollowing_run_def
      getCurrentAdapter_def make_chan_def WithCancel_def FollowLogs_def Let_def)

text \<open>On no adapter at all is the command of \<^verbatim>\<open>FollowLogs\<close> the SSH command.\<close>

lemma FollowLogs_command_not_ssh: "FollowLogs_command c \<noteq> sshCommand c [''logs'', ''--follow'']"
  by (auto simp: FollowLogs_command_def sshCommand_def Let_def)

section \<open>Properties of starting, stopping and switching\<close>

subsection \<open>Claim C3\<close>

text \<open>
  C3 says that two consecutive switches with no event in between leave exactly one
  active follow session for the instance, and that an instance never has two.
  \<^verbatim>\<open>switchInstance\<close> cancels the context stored in \<^verbatim>\<open>a.logCancel\<close> at once, but only appends
  the command that starts the new session; the context of the new session is stored
  when that command runs. Evaluated from a state where a session is active: after two
  calls of \<^verbatim>\<open>switchInstance\<close> the command list holds two start commands and no session
  is active; once both commands have run, two sessions of the instance are active (the
  subprocesses on contexts 5 and 8); a following \<^verbatim>\<open>stopLogFollowing\<close> cancels the newer
  one only and the older subprocess keeps running.
\<close>

theorem switchInstance_twice_evaluation:
  "(let (s0, r0) = startLogFollowing_run example_world (app0, runtime0);
        (s1, cmds1) = switchInstance s0 [];
        (s2, cmds2) = switchInstance s1 cmds1;
        (s3, r1) = startLogFollowing_run example_world s2;
        (s4, r2) = startLogFollowing_run example_world s3;
        s5 = stopLogFollowing s4
    in (cmds2, r1, r2,
        map proc_ctx (active_sessions (snd s0) ''local''),
        map proc_ctx (active_sessions (snd s2) ''local''),
        map proc_ctx (active_sessions (snd s4) ''local''),
        map proc_ctx (active_sessions (snd s5) ''local''))) =
   ([Cmd_fetchCLIStatus, Cmd_fetchCLIHealth, Cmd_startLogFollowing,
     Cmd_fetchCLIStatus, Cmd_fetchCLIHealth, Cmd_startLogFollowing],
    Waits_in_select, Waits_in_select, [2], [], [5, 8], [5])"
  by (simp add: app_eval adapter_eval example_eval Let_def)

text \<open>
  When each start command runs before the next switch, the stored context is that of
  the one active session and each switch replaces it: one session at every point.
\<close>

lemma switchInstance_in_turn_evaluation:
  "(let (s0, r0) = startLogFollowing_run example_world (app0, runtime0);
        (s1, cmds1) = switchInstance s0 [];
        (s2, r1) = startLogFollowing_run example_world s1;
        (s3, cmds2) = switchInstance s2 [];
        (s4, r2) = startLogFollowing_run example_world s3
    in (map proc_ctx (active_sessions (snd s0) ''local''),
        map proc_ctx (active_sessions (snd s2) ''local''),
        map proc_ctx (active_sessions (snd s4) ''local''))) =
   ([2], [5], [8])"
  by (simp add: app_eval adapter_eval example_eval Let_def)

text \<open>
  The user interface reaches the same state with three instances and the down key
  pressed twice before the first start command runs: both start commands read the
  selection when they run, so both follow the third instance, and the second instance
  gets no session.
\<close>

lemma Update_Down_twice_evaluation:
  "(let (s0, r0) = startLogFollowing_run example_world (app_three, runtime0);
        (s1, cmds1) = Update_Down s0 [];
        (s2, cmds2) = Update_Down s1 [];
        (s3, r1) = startLogFollowing_run example_world s2;
        (s4, r2) = startLogFollowing_run example_world s3
    in (selectedInstance (fst s4),
        map proc_ctx (active_sessions (snd s4) ''alpha''),
        map proc_ctx (active_sessions (snd s4) ''beta''),
        map proc_ctx (active_sessions (snd s4) ''gamma''))) =
   (2, [], [], [5, 8])"
  by (simp add: app_eval adapter_eval example_eval Update_Down_def Let_def)

subsection \<open>Claim C10\<close>

lemma getCurrentAdapter_bound: "getCurrentAdapter a = Some i \<Longrightarrow> i < length (cliAdapters a)"
  by (auto simp: getCurrentAdapter_def split: if_splits)

lemma FollowLogs_failed:
  assumes "cmd_Start W (fst (FollowLogs_command c)) (snd (FollowLogs_command c)) \<noteq> Started"
  shows "FollowLogs W rt c k ch =
           (Some (case cmd_Start W (fst (FollowLogs_command c)) (snd (FollowLogs_command c)) of
                    StdoutPipeFailed err \<Rightarrow> ''failed to get stdout pipe: '' @ err
                  | StderrPipeFailed err \<Rightarrow> ''failed to get stderr pipe: '' @ err
                  | StartFailed err \<Rightarrow> ''failed to start logs command: '' @ err
                  | Started \<Rightarrow> []),
            c\<lparr>logCmd := Some (FollowLogs_command c), logCancel := Some (next_id rt)\<rparr>,
            snd (WithCancel rt (Some k)))"
proof -
  have f: "FollowLogs_command (c\<lparr>logCancel := x\<rparr>) = FollowLogs_command c" for x
    by (simp add: FollowLogs_command_def getBinary_def)
  show ?thesis
    using assms
    by (cases "cmd_Start W (fst (FollowLogs_command c)) (snd (FollowLogs_command c))")
       (simp_all add: FollowLogs_def WithCancel_def Let_def f)
qed

lemma procs_WithCancel: "procs (snd (WithCancel rt p)) = procs rt"
  by (simp add: WithCancel_def Let_def)

lemma procs_make_chan: "procs (snd (make_chan rt)) = procs rt"
  by (simp add: make_chan_def)

lemma GetFullStatus_log_fields:
  "fst (GetFullStatus W (c\<lparr>logCmd := x, logCancel := y\<rparr>)) = fst (GetFullStatus W c)"
proof -
  have "runCommand W (c\<lparr>logCmd := x, logCancel := y\<rparr>) args = runCommand W c args" for args
    by (simp add: runCommand_def IsRemote_def runSSHCommand_def runLocalCommand_def sshCommand_def
        localCommand_def buildSSHArgs_def getBinary_def)
  then show ?thesis
    by (simp add: GetFullStatus_def Let_def split: sum.splits)
qed

text \<open>
  C10: whenever the follow subprocess cannot be launched (the pipes or \<^verbatim>\<open>Start\<close> fail),
  the start command returns no error but exactly one message, a log event of level
  \<^verbatim>\<open>warn\<close> from source \<^verbatim>\<open>lazyclaw\<close> whose text is \<^verbatim>\<open>Could not start log following:\<close>
  followed by the failure. No subprocess is added, \<^verbatim>\<open>logFollowing\<close> is not set, the
  displayed status, health result and log buffer are untouched, every adapter keeps
  its cached snapshot and cached error, and the next status fetch answers what it would
  have answered without the attempt.
\<close>

theorem startLogFollowing_launch_failure:
  assumes "getCurrentAdapter a = Some i"
      and "cmd_Start W (fst (FollowLogs_command (cliAdapters a ! i)))
             (snd (FollowLogs_command (cliAdapters a ! i))) \<noteq> Started"
  shows "\<exists>a' rt'.
           startLogFollowing_run W (a, rt) =
             ((a', rt'),
              Returned (Some (CLILogMsg
                \<lparr>Timestamp = time_Now W, Level = ''warn'', Source = ''lazyclaw'',
                 Message = ''Could not start log following: '' @
                   (case cmd_Start W (fst (FollowLogs_command (cliAdapters a ! i)))
                           (snd (FollowLogs_command (cliAdapters a ! i))) of
                      StdoutPipeFailed err \<Rightarrow> ''failed to get stdout pipe: '' @ err
                    | StderrPipeFailed err \<Rightarrow> ''failed to get stderr pipe: '' @ err
                    | StartFailed err \<Rightarrow> ''failed to start logs command: '' @ err
                    | Started \<Rightarrow> []),
                 Raw = []\<rparr>))) \<and>
           procs rt' = procs rt \<and>
           openclawStatus a' = openclawStatus a \<and> healthCheckResult a' = healthCheckResult a \<and>
           logs a' = logs a \<and> logFollowing a' = logFollowing a \<and>
           selectedInstance a' = selectedInstance a \<and>
           map GetCachedStatus (cliAdapters a') = map GetCachedStatus (cliAdapters a) \<and>
           map GetLastError (cliAdapters a') = map GetLastError (cliAdapters a) \<and>
           snd (fetchCLIStatus_run W a') = snd (fetchCLIStatus_run W a)"
proof -
  from assms(1) have i: "i < length (cliAdapters a)" by (rule getCurrentAdapter_bound)
  define c where "c = cliAdapters a ! i"
  define rt1 where "rt1 = snd (make_chan rt)"
  define rt2 where "rt2 = snd (WithCancel rt1 None)"
  define c' where "c' = c\<lparr>logCmd := Some (FollowLogs_command c), logCancel := Some (next_id rt2)\<rparr>"
  define rt' where "rt' = snd (WithCancel rt2 (Some (next_id rt1)))"
  define a' where "a' = a\<lparr>logChan := Some (next_id rt), logCtx := Some (next_id rt1),
                          app_logCancel := Some (next_id rt1), cliAdapters := (cliAdapters a)[i := c']\<rparr>"
  define e where "e = (case cmd_Start W (fst (FollowLogs_command c)) (snd (FollowLogs_command c)) of
                    StdoutPipeFailed err \<Rightarrow> ''failed to get stdout pipe: '' @ err
                  | StderrPipeFailed err \<Rightarrow> ''failed to get stderr pipe: '' @ err
                  | StartFailed err \<Rightarrow> ''failed to start logs command: '' @ err
                  | Started \<Rightarrow> [])"
  have fl: "FollowLogs W rt2 c (next_id rt1) (next_id rt) = (Some e, c', rt')"
    unfolding c'_def rt'_def e_def using assms(2) [folded c_def] by (rule FollowLogs_failed)
  have mk: "make_chan rt = (next_id rt, rt1)"
    by (simp add: rt1_def make_chan_def)
  have wc: "WithCancel rt1 None = (next_id rt1, rt2)"
    by (simp add: rt2_def WithCancel_def Let_def)
  have run: "startLogFollowing_run W (a, rt) =
             ((a', rt'),
              Returned (Some (CLILogMsg
                \<lparr>Timestamp = time_Now W, Level = ''warn'', Source = ''lazyclaw'',
                 Message = ''Could not start log following: '' @ e, Raw = []\<rparr>)))"
    unfolding startLogFollowing_run_def
    by (simp add: assms(1) mk wc c_def [symmetric] fl a'_def)
  have p: "procs rt' = procs rt"
    by (simp add: rt'_def rt2_def rt1_def procs_WithCancel procs_make_chan)
  have fields: "openclawStatus a' = openclawStatus a" "healthCheckResult a' = healthCheckResult a"
      "logs a' = logs a" "logFollowing a' = logFollowing a" "selectedInstance a' = selectedInstance a"
    by (simp_all add: a'_def)
  have upd: "cliAdapters a' = (cliAdapters a)[i := c']" by (simp add: a'_def)
  have cs: "map GetCachedStatus (cliAdapters a') = map GetCachedStatus (cliAdapters a)"
    unfolding upd using i
    by (simp add: map_update c'_def c_def GetCachedStatus_def list_update_same_conv)
  have le: "map GetLastError (cliAdapters a') = map GetLastError (cliAdapters a)"
    unfolding upd using i
    by (simp add: map_update c'_def c_def GetLastError_def list_update_same_conv)
  have "getCurrentAdapter a' = getCurrentAdapter a"
    by (simp add: getCurrentAdapter_def a'_def)
  with assms(1) have g: "getCurrentAdapter a' = Some i"
    by simp
  have "cliAdapters a' ! i = c'" using i by (simp add: upd)
  then have "fst (GetFullStatus W (cliAdapters a' ! i)) = fst (GetFullStatus W (cliAdapters a ! i))"
    by (simp add: c'_def c_def GetFullStatus_log_fields)
  then have fs: "snd (fetchCLIStatus_run W a') = snd (fetchCLIStatus_run W a)"
    by (simp add: fetchCLIStatus_run_def g assms(1) split_def Let_def)
  from run p fields cs le fs show ?thesis
    unfolding e_def c_def by blast
qed

text \<open>The theorem at the instance whose binary does not exist.\<close>

theorem startLogFollowing_launch_failure_witness:
  "getCurrentAdapter app_missing = Some 0 \<and>
   (\<exists>a' rt'.
      startLogFollowing_run example_world (app_missing, runtime0) =
        ((a', rt'),
         Returned (Some (CLILogMsg
           \<lparr>Timestamp = 1705314700, Level = ''warn'', Source = ''lazyclaw'',
            Message = ''Could not start log following: failed to start logs command: executable file not found in $PATH'',
            Raw = []\<rparr>))) \<and>
      procs rt' = [] \<and> openclawStatus a' = Some True \<and> logFollowing a' = False \<and>
      map GetCachedStatus (cliAdapters a') = [Some True] \<and>
      snd (fetchCLIStatus_run example_world a') = snd (fetchCLIStatus_run example_world app_missing))"
proof -
  have g: "getCurrentAdapter app_missing = Some 0"
    by (simp add: getCurrentAdapter_def example_eval)
  have st: "cmd_Start example_world (fst (FollowLogs_command (cliAdapters app_missing ! 0)))
              (snd (FollowLogs_command (cliAdapters app_missing ! 0))) =
            StartFailed ''executable file not found in $PATH''"
    by (simp add: FollowLogs_command_def getBinary_def example_eval)
  then have ne: "cmd_Start example_world (fst (FollowLogs_command (cliAdapters app_missing ! 0)))
              (snd (FollowLogs_command (cliAdapters app_missing ! 0))) \<noteq> Started"
    by simp
  have v: "time_Now example_world = 1705314700" "procs runtime0 = []"
      "openclawStatus app_missing = Some True" "logFollowing app_missing = False"
      "map GetCachedStatus (cliAdapters app_missing) = [Some True]"
    by (simp_all add: example_eval GetCachedStatus_def)
  from startLogFollowing_launch_failure [OF g ne, of runtime0]
  show ?thesis
    unfolding st v
    apply (simp add: g)
    apply (elim exE conjE)
    apply (intro exI conjI)
         apply assumption+
    done
qed

end
